theory Spec2Isabelle
  imports Complex_Main
begin

section \<open>JavaScript values\<close>

text \<open>
  The values that travel through the cluster relay of \<^verbatim>\<open>lib/primus-cluster.js\<close>: the
  arguments of an intercepted call, the fields of a cluster message, the result of the
  host's decoder. A finite number is its exact rational value, so \<open>+0\<close> and \<open>-0\<close> are
  one number, as they are for \<^verbatim>\<open>===\<close>. An object holds its properties in enumeration
  order. \<open>JArguments\<close> is the \<^verbatim>\<open>arguments\<close> object of a call.
\<close>

datatype jsval =
    JUndefined
  | JNull
  | JBool bool
  | JNum rat
  | JNaN
  | JInf bool
  | JStr string
  | JArr "jsval list"
  | JArguments "jsval list"
  | JObj "(string \<times> jsval) list"

text \<open>What a \<^verbatim>\<open>throw\<close> carries: the engine's own errors, or a value thrown by host code.\<close>

datatype thrown = TypeError | RangeError | Thrown jsval

datatype outcome = Returned | Threw thrown

text \<open>Truthiness, as \<^verbatim>\<open>if (x)\<close>, \<^verbatim>\<open>!x\<close> and \<^verbatim>\<open>x || y\<close> decide it.\<close>

fun truthy :: "jsval \<Rightarrow> bool" where
  "truthy JUndefined = False"
| "truthy JNull = False"
| "truthy (JBool b) = b"
| "truthy (JNum r) = (r \<noteq> 0)"
| "truthy JNaN = False"
| "truthy (JInf b) = True"
| "truthy (JStr s) = (s \<noteq> [])"
| "truthy (JArr xs) = True"
| "truthy (JArguments xs) = True"
| "truthy (JObj kvs) = True"

text \<open>
  \<^verbatim>\<open>v === n\<close> for a finite number \<open>n\<close>: true exactly when \<open>v\<close> is that number. No
  conversion takes place, so a string, \<^verbatim>\<open>undefined\<close> or \<^verbatim>\<open>NaN\<close> never equals it.
\<close>

fun strict_eq_number :: "jsval \<Rightarrow> rat \<Rightarrow> bool" where
  "strict_eq_number (JNum r) n = (r = n)"
| "strict_eq_number _ n = False"

text \<open>
  \<^verbatim>\<open>v.k\<close> for the property names the relay reads (\<open>type\<close>, \<open>id\<close>, \<open>opts\<close>, \<open>data\<close>,
  \<open>method\<close>, \<open>rooms\<close>, \<open>to\<close>, \<open>except\<close>): a \<^verbatim>\<open>TypeError\<close> on \<^verbatim>\<open>undefined\<close> and
  \<^verbatim>\<open>null\<close>, the property of an object or \<^verbatim>\<open>undefined\<close> when it has none, and
  \<^verbatim>\<open>undefined\<close> on primitives, arrays and \<^verbatim>\<open>arguments\<close>, which carry none of these names.
\<close>

fun get_prop :: "jsval \<Rightarrow> string \<Rightarrow> thrown + jsval" where
  "get_prop JUndefined k = Inl TypeError"
| "get_prop JNull k = Inl TypeError"
| "get_prop (JObj kvs) k = Inr (case map_of kvs k of None \<Rightarrow> JUndefined | Some v \<Rightarrow> v)"
| "get_prop v k = Inr JUndefined"

text \<open>Joining strings with a separator, as \<^verbatim>\<open>Array.prototype.join\<close> does.\<close>

fun join_with :: "string \<Rightarrow> string list \<Rightarrow> string" where
  "join_with sep [] = []"
| "join_with sep [s] = s"
| "join_with sep (s # t # ss) = s @ sep @ join_with sep (t # ss)"

text \<open>
  The string a value becomes in \<^verbatim>\<open>v + 'suffix'\<close> and \<^verbatim>\<open>'prefix' + v\<close>. The rendering
  of a finite number is the runtime's and is a parameter \<open>nts\<close>. An array is the
  comma-joined rendering of its elements, \<^verbatim>\<open>null\<close> and \<^verbatim>\<open>undefined\<close> elements being
  empty. An object is \<^verbatim>\<open>[object Object]\<close>, the rendering of \<^verbatim>\<open>Object.prototype\<close>.
\<close>

fun to_js_string :: "(rat \<Rightarrow> string) \<Rightarrow> jsval \<Rightarrow> string" where
  "to_js_string nts JUndefined = ''undefined''"
| "to_js_string nts JNull = ''null''"
| "to_js_string nts (JBool b) = (if b then ''true'' else ''false'')"
| "to_js_string nts (JNum r) = nts r"
| "to_js_string nts JNaN = ''NaN''"
| "to_js_string nts (JInf b) = (if b then ''Infinity'' else ''-Infinity'')"
| "to_js_string nts (JStr s) = s"
| "to_js_string nts (JArr xs) =
     join_with '','' (map (\<lambda>x. if x = JUndefined \<or> x = JNull then [] else to_js_string nts x) xs)"
| "to_js_string nts (JArguments xs) = ''[object Arguments]''"
| "to_js_string nts (JObj kvs) = ''[object Object]''"

section \<open>The node, the host framework and the collaborators\<close>

text \<open>
  A function held in a slot of the host framework object \<^verbatim>\<open>primus\<close>: a function of the
  host itself, known by a name, or the closure that \<^verbatim>\<open>wrapMethod\<close> installs for a
  method.
\<close>

datatype primus_fn = Host string | Wrapper string

text \<open>
  What the node does to the outside, in order: calls of the host's encoder and decoder,
  writes to the publish client, subscriptions of the subscribe client, \<^verbatim>\<open>error\<close>
  events emitted on the host, calls of host functions, and room operations
  (\<open>RoomCall room to except method args\<close> is
  \<^verbatim>\<open>primus.room(room).to(to).except(except)[method].apply(rooms, args)\<close>).
\<close>

datatype event =
    EncoderCall jsval
  | DecoderCall string
  | Publish string jsval
  | Subscribe string
  | EmitError jsval
  | HostCall string "jsval list"
  | RoomCall jsval jsval jsval jsval "jsval list"

text \<open>
  The host framework object as the relay uses it: its function slots, in property
  order, and the number of listeners of its \<^verbatim>\<open>error\<close> event.
\<close>

record primus_host =
  slots :: "(string \<times> primus_fn) list"
  error_listeners :: nat

text \<open>
  A \<^verbatim>\<open>PrimusCluster\<close> instance: \<^verbatim>\<open>this.id\<close>, \<^verbatim>\<open>this.channel\<close>, \<^verbatim>\<open>this.silent\<close>,
  \<^verbatim>\<open>this.primus\<close>, the number of \<^verbatim>\<open>message\<close> handlers registered on
  \<^verbatim>\<open>this.clients.sub\<close>, and the events so far.
\<close>

record cluster =
  node_id :: rat
  channel :: string
  silent :: bool
  primus :: primus_host
  message_handlers :: nat
  trace :: "event list"

text \<open>
  The code outside \<^verbatim>\<open>lib/primus-cluster.js\<close>, as parameters. The encoder and the
  decoder call their callback once, before they return, and let an error thrown by the
  callback through: \<open>Inl err\<close> is the call \<^verbatim>\<open>cb(err)\<close>, with the error alone, and
  \<open>Inr msg\<close> the call \<^verbatim>\<open>cb(undefined, msg)\<close>, with the result and no error.
  \<open>host_call\<close> and \<open>room_call\<close> say whether a host function, or a room operation,
  returns or throws; what the host does inside is not part of the trace. \<open>toArray\<close> is lodash's
  \<^verbatim>\<open>_.toArray\<close>, \<open>each_items\<close> the elements that \<^verbatim>\<open>_.each\<close> visits, in order.
  \<open>number_to_string\<close> renders a finite number. \<open>stack\<close> is how many nested calls of
  slots of \<^verbatim>\<open>primus\<close> the engine allows before it throws a \<^verbatim>\<open>RangeError\<close>.
\<close>

record runtime =
  encoder :: "jsval \<Rightarrow> jsval + jsval"
  decoder :: "string \<Rightarrow> jsval + jsval"
  host_call :: "string \<Rightarrow> jsval list \<Rightarrow> outcome"
  room_call :: "jsval \<Rightarrow> jsval \<Rightarrow> jsval \<Rightarrow> jsval \<Rightarrow> jsval list \<Rightarrow> outcome"
  toArray :: "jsval \<Rightarrow> jsval list"
  each_items :: "jsval \<Rightarrow> jsval list"
  number_to_string :: "rat \<Rightarrow> string"
  stack :: nat

text \<open>The arguments \<^verbatim>\<open>(err, msg)\<close> that the callback of an encoder or decoder receives.\<close>

fun callback_args :: "jsval + jsval \<Rightarrow> jsval \<times> jsval" where
  "callback_args (Inl err) = (err, JUndefined)"
| "callback_args (Inr msg) = (JUndefined, msg)"

definition note_event :: "event \<Rightarrow> cluster \<Rightarrow> cluster" where
  "note_event e c = c\<lparr>trace := trace c @ [e]\<rparr>"

text \<open>
  \<^verbatim>\<open>this.primus.listeners('error').length && this.primus.emit('error', err)\<close>: the
  event is emitted only when the host has a listener for it. Listeners are host code and
  are taken to return.
\<close>

definition safe_emit_error :: "jsval \<Rightarrow> cluster \<Rightarrow> cluster" where
  "safe_emit_error err c =
     (if error_listeners (primus c) \<noteq> 0 then note_event (EmitError err) c else c)"

section \<open>Publishing\<close>

text \<open>
  \<^verbatim>\<open>publish(data, type, opts)\<close>: nothing in silent mode; otherwise the message
  \<^verbatim>\<open>{id, data, type, opts}\<close> goes to the encoder, and in its callback a truthy
  \<^verbatim>\<open>err\<close> goes to \<open>safe_emit_error\<close>; otherwise \<^verbatim>\<open>msg\<close> is written to the channel.
\<close>

definition cluster_message :: "cluster \<Rightarrow> jsval \<Rightarrow> jsval \<Rightarrow> jsval \<Rightarrow> jsval" where
  "cluster_message c data type opts =
     JObj [(''id'', JNum (node_id c)), (''data'', data), (''type'', type), (''opts'', opts)]"

definition publish :: "runtime \<Rightarrow> cluster \<Rightarrow> jsval \<Rightarrow> jsval \<Rightarrow> jsval \<Rightarrow> cluster \<times> outcome" where
  "publish env c data type opts =
     (let opts' = (if truthy opts then opts else JObj []) in
      if silent c then (c, Returned)
      else
        let message = cluster_message c data type opts';
            c1 = note_event (EncoderCall message) c
        in case callback_args (encoder env message) of
             (err, msg) \<Rightarrow>
               if truthy err then (safe_emit_error err c1, Returned)
               else (note_event (Publish (channel c1) msg) c1, Returned))"

section \<open>Sequencing\<close>

text \<open>
  Statement after statement: the second runs in the state the first leaves, unless the
  first throws; then the error goes on to the caller, with the state as it is.
\<close>

fun and_then :: "cluster \<times> outcome \<Rightarrow> (cluster \<Rightarrow> cluster \<times> outcome) \<Rightarrow> cluster \<times> outcome" where
  "and_then (c, Returned) k = k c"
| "and_then (c, Threw e) k = (c, Threw e)"

text \<open>A property read whose \<^verbatim>\<open>TypeError\<close>, if any, is thrown in state \<open>c\<close>.\<close>

fun reading :: "cluster \<Rightarrow> thrown + jsval \<Rightarrow> (jsval \<Rightarrow> cluster \<times> outcome) \<Rightarrow> cluster \<times> outcome" where
  "reading c (Inl e) k = (c, Threw e)"
| "reading c (Inr v) k = k v"

text \<open>
  \<^verbatim>\<open>_.each(collection, callback)\<close> over the elements it visits, for a callback that
  returns nothing: the elements in order, up to the first on which the callback throws.
\<close>

fun each :: "(cluster \<Rightarrow> 'a \<Rightarrow> cluster \<times> outcome) \<Rightarrow> cluster \<Rightarrow> 'a list \<Rightarrow> cluster \<times> outcome" where
  "each f c [] = (c, Returned)"
| "each f c (x # xs) = and_then (f c x) (\<lambda>c1. each f c1 xs)"

section \<open>Calling the slots of the host framework\<close>

text \<open>
  Calling a function held by \<^verbatim>\<open>primus\<close>, with \<open>n\<close> nested calls left. A host function is
  an event and the host's outcome. The closure of \<^verbatim>\<open>wrapMethod\<close> for \<open>method\<close> is
  \<^verbatim>\<open>this.publish(arguments, 'primus', { method: method })\<close> and then
  \<^verbatim>\<open>this.primus['__original' + method].apply(this.primus, arguments)\<close>, the slot being
  read at the time of the call.
\<close>

fun apply_fn :: "nat \<Rightarrow> runtime \<Rightarrow> cluster \<Rightarrow> primus_fn \<Rightarrow> jsval list \<Rightarrow> cluster \<times> outcome" where
  "apply_fn 0 env c f args = (c, Threw RangeError)"
| "apply_fn (Suc n) env c (Host h) args = (note_event (HostCall h args) c, host_call env h args)"
| "apply_fn (Suc n) env c (Wrapper method) args =
     and_then (publish env c (JArguments args) (JStr ''primus'') (JObj [(''method'', JStr method)]))
       (\<lambda>c1. case map_of (slots (primus c1)) (''__original'' @ method) of
                None \<Rightarrow> (c1, Threw TypeError)
              | Some g \<Rightarrow> apply_fn n env c1 g args)"

section \<open>Wrapping the methods of the host framework\<close>

text \<open>Assignment to a property: in place when the object has it, at the end otherwise.\<close>

fun set_slot :: "string \<Rightarrow> primus_fn \<Rightarrow> (string \<times> primus_fn) list \<Rightarrow> (string \<times> primus_fn) list" where
  "set_slot k v [] = [(k, v)]"
| "set_slot k v ((k', v') # kvs) =
     (if k = k' then (k, v) # kvs else (k', v') # set_slot k v kvs)"

text \<open>
  \<^verbatim>\<open>wrapMethod(method)\<close>: nothing when \<^verbatim>\<open>primus\<close> has no such method; otherwise the
  method is kept as \<^verbatim>\<open>'__original' + method\<close> and the closure takes its place.
\<close>

definition wrapMethod :: "string \<Rightarrow> cluster \<Rightarrow> cluster" where
  "wrapMethod method c =
     (case map_of (slots (primus c)) method of
        None \<Rightarrow> c
      | Some f \<Rightarrow>
          c\<lparr>primus := (primus c)\<lparr>slots :=
               set_slot method (Wrapper method)
                 (set_slot (''__original'' @ method) f (slots (primus c)))\<rparr>\<rparr>)"

definition wrapPrimusMethods :: "cluster \<Rightarrow> cluster" where
  "wrapPrimusMethods c = fold wrapMethod [''write'', ''send''] c"

section \<open>Dispatching inbound messages\<close>

text \<open>
  \<^verbatim>\<open>initializeMessageDispatcher\<close>: the subscribe client subscribes to the channel and
  gets one more \<^verbatim>\<open>message\<close> handler.
\<close>

definition initializeMessageDispatcher :: "cluster \<Rightarrow> cluster" where
  "initializeMessageDispatcher c =
     (let c1 = note_event (Subscribe (channel c)) c
      in c1\<lparr>message_handlers := Suc (message_handlers c1)\<rparr>)"

text \<open>
  The body of the callback of \<^verbatim>\<open>roomMessageDispatcher\<close> for one room: the room
  operation \<^verbatim>\<open>msg.opts.method\<close> on
  \<^verbatim>\<open>this.primus.room(room).to(msg.opts.to).except(msg.opts.except)\<close>, applied to
  \<^verbatim>\<open>_.toArray(msg.data)\<close>.
\<close>

definition room_body :: "runtime \<Rightarrow> jsval \<Rightarrow> cluster \<Rightarrow> jsval \<Rightarrow> cluster \<times> outcome" where
  "room_body env msg c room =
     reading c (get_prop msg ''opts'') (\<lambda>opts.
     reading c (get_prop opts ''to'') (\<lambda>to.
     reading c (get_prop opts ''except'') (\<lambda>ex.
     reading c (get_prop opts ''method'') (\<lambda>m.
     reading c (get_prop msg ''data'') (\<lambda>d.
       (note_event (RoomCall room to ex m (toArray env d)) c,
        room_call env room to ex m (toArray env d)))))))"

definition roomMessageDispatcher :: "runtime \<Rightarrow> cluster \<Rightarrow> jsval \<Rightarrow> cluster \<times> outcome" where
  "roomMessageDispatcher env c msg =
     reading c (get_prop msg ''opts'') (\<lambda>opts.
     reading c (get_prop opts ''rooms'') (\<lambda>rooms.
       each (room_body env msg) c (each_items env rooms)))"

text \<open>
  \<^verbatim>\<open>primusMessageDispatcher\<close>:
  \<^verbatim>\<open>this.primus['__original' + msg.opts.method].apply(this.primus, _.toArray(msg.data))\<close>.
\<close>

definition primusMessageDispatcher :: "runtime \<Rightarrow> cluster \<Rightarrow> jsval \<Rightarrow> cluster \<times> outcome" where
  "primusMessageDispatcher env c msg =
     reading c (get_prop msg ''opts'') (\<lambda>opts.
     reading c (get_prop opts ''method'') (\<lambda>m.
       case map_of (slots (primus c)) (''__original'' @ to_js_string (number_to_string env) m) of
         None \<Rightarrow> (c, Threw TypeError)
       | Some f \<Rightarrow>
           reading c (get_prop msg ''data'') (\<lambda>d. apply_fn (stack env) env c f (toArray env d))))"

text \<open>
  \<^verbatim>\<open>this[name]\<close> for a name that ends in \<open>MessageDispatcher\<close>: the three methods of
  \<^verbatim>\<open>PrimusCluster.prototype\<close> with such a name. Any other name of that form is
  \<^verbatim>\<open>undefined\<close>.
\<close>

datatype dispatcher = RoomDispatcher | PrimusDispatcher | InitializeDispatcher

definition this_member :: "string \<Rightarrow> dispatcher option" where
  "this_member name =
     (if name = ''roomMessageDispatcher'' then Some RoomDispatcher
      else if name = ''primusMessageDispatcher'' then Some PrimusDispatcher
      else if name = ''initializeMessageDispatcher'' then Some InitializeDispatcher
      else None)"

fun run_dispatcher :: "dispatcher \<Rightarrow> runtime \<Rightarrow> cluster \<Rightarrow> jsval \<Rightarrow> cluster \<times> outcome" where
  "run_dispatcher RoomDispatcher env c msg = roomMessageDispatcher env c msg"
| "run_dispatcher PrimusDispatcher env c msg = primusMessageDispatcher env c msg"
| "run_dispatcher InitializeDispatcher env c msg = (initializeMessageDispatcher c, Returned)"

text \<open>
  \<^verbatim>\<open>callDispatcher(msg)\<close>: \<^verbatim>\<open>this.silent = true\<close>, then
  \<^verbatim>\<open>this[msg.type + 'MessageDispatcher'](msg)\<close>, a \<^verbatim>\<open>TypeError\<close> when there is no such
  method, then \<^verbatim>\<open>this.silent = false\<close>.
\<close>

definition callDispatcher :: "runtime \<Rightarrow> cluster \<Rightarrow> jsval \<Rightarrow> cluster \<times> outcome" where
  "callDispatcher env c msg =
     (let c1 = c\<lparr>silent := True\<rparr> in
      reading c1 (get_prop msg ''type'') (\<lambda>ty.
        case this_member (to_js_string (number_to_string env) ty @ ''MessageDispatcher'') of
          None \<Rightarrow> (c1, Threw TypeError)
        | Some d \<Rightarrow>
            and_then (run_dispatcher d env c1 msg) (\<lambda>c2. (c2\<lparr>silent := False\<rparr>, Returned))))"

text \<open>
  \<^verbatim>\<open>dispatchMessage(msg)\<close>: the decoder, and in its callback a truthy \<^verbatim>\<open>err\<close> to
  \<open>safe_emit_error\<close>, or else the decoded message: dropped when it has no type, dropped when
  its id is this node's, to \<open>callDispatcher\<close> otherwise.
\<close>

definition dispatchMessage :: "runtime \<Rightarrow> cluster \<Rightarrow> string \<Rightarrow> cluster \<times> outcome" where
  "dispatchMessage env c raw =
     (let c1 = note_event (DecoderCall raw) c in
      case callback_args (decoder env raw) of
        (err, msg) \<Rightarrow>
          if truthy err then (safe_emit_error err c1, Returned)
          else
            reading c1 (get_prop msg ''type'') (\<lambda>ty.
              if \<not> truthy ty then (c1, Returned)
              else reading c1 (get_prop msg ''id'') (\<lambda>mid.
                if strict_eq_number mid (node_id c1) then (c1, Returned)
                else callDispatcher env c1 msg)))"

text \<open>
  The handler of the \<^verbatim>\<open>message\<close> event of the subscribe client:
  \<^verbatim>\<open>function (channel, message) { this.dispatchMessage(message); }\<close>.
\<close>

definition on_message :: "runtime \<Rightarrow> cluster \<Rightarrow> string \<Rightarrow> string \<Rightarrow> cluster \<times> outcome" where
  "on_message env c chan message = dispatchMessage env c message"

text \<open>
  A \<^verbatim>\<open>message\<close> event of the subscribe client, an event emitter outside
  \<^verbatim>\<open>lib/primus-cluster.js\<close>: the handlers registered when the event is emitted are
  called in order with the channel and the message, and an error thrown by one of them
  ends the delivery. The handlers are the closures that \<^verbatim>\<open>initializeMessageDispatcher\<close>
  has installed, \<open>message_handlers\<close> of them, each with the body \<open>on_message\<close>.
\<close>

fun deliver :: "nat \<Rightarrow> runtime \<Rightarrow> cluster \<Rightarrow> string \<Rightarrow> string \<Rightarrow> cluster \<times> outcome" where
  "deliver 0 env c chan message = (c, Returned)"
| "deliver (Suc n) env c chan message =
     and_then (on_message env c chan message) (\<lambda>c1. deliver n env c1 chan message)"

definition sub_emit_message :: "runtime \<Rightarrow> cluster \<Rightarrow> string \<Rightarrow> string \<Rightarrow> cluster \<times> outcome" where
  "sub_emit_message env c chan message = deliver (message_handlers c) env c chan message"

section \<open>A node and its collaborators, for examples\<close>

text \<open>
  The constructor, as far as the relay goes: the fields, the wrapping of the methods and
  the message dispatcher. (The clients and the room adapter are made by code outside this
  development.) \<open>i\<close> is the value of \<^verbatim>\<open>Math.random()\<close>.
\<close>

definition PrimusCluster :: "rat \<Rightarrow> string \<Rightarrow> primus_host \<Rightarrow> cluster" where
  "PrimusCluster i ch p =
     initializeMessageDispatcher (wrapPrimusMethods
       \<lparr>node_id = i, channel = ch, silent = False, primus = p,
        message_handlers = 0, trace = []\<rparr>)"

text \<open>The property name of an index: its decimal digits.\<close>

fun index_key :: "nat \<Rightarrow> string" where
  "index_key n =
     (if n < 10 then [''0123456789'' ! n]
      else index_key (n div 10) @ [''0123456789'' ! (n mod 10)])"

declare index_key.simps [simp del]

text \<open>
  The length of an array-like object, as lodash decides it: the object has a
  \<^verbatim>\<open>length\<close> that is a whole number from 0 to \<open>2\<^sup>5\<^sup>3 - 1\<close>.
\<close>

definition array_like_length :: "(string \<times> jsval) list \<Rightarrow> nat option" where
  "array_like_length kvs =
     (case map_of kvs ''length'' of
        Some (JNum r) \<Rightarrow>
          if 0 \<le> r \<and> of_int \<lfloor>r\<rfloor> = r \<and> r \<le> 2 ^ 53 - 1 then Some (nat \<lfloor>r\<rfloor>) else None
      | _ \<Rightarrow> None)"

text \<open>
  What lodash's \<^verbatim>\<open>_.toArray\<close> returns, and \<^verbatim>\<open>_.each\<close> visits: the elements of an
  array or of \<^verbatim>\<open>arguments\<close>, the characters of a string, the values at the indices
  below the length of an array-like object, and the property values of any other
  object.
\<close>

fun lodash_items :: "jsval \<Rightarrow> jsval list" where
  "lodash_items (JArr xs) = xs"
| "lodash_items (JArguments xs) = xs"
| "lodash_items (JStr s) = map (\<lambda>ch. JStr [ch]) s"
| "lodash_items (JObj kvs) =
     (case array_like_length kvs of
        None \<Rightarrow> map snd kvs
      | Some n \<Rightarrow>
          map (\<lambda>i. case map_of kvs (index_key i) of None \<Rightarrow> JUndefined | Some v \<Rightarrow> v) [0..<n])"
| "lodash_items v = []"

text \<open>
  Collaborators for the examples: a decoder that knows the payloads of a table and
  fails on any other, an encoder that fails on a message whose data is \<^verbatim>\<open>NaN\<close>, a host
  whose functions throw when called without arguments, and a room \<open>lobby\<close> whose
  operations throw. No number is turned into a string in the examples, so any rendering
  of numbers will do.
\<close>

definition example_runtime :: "(string \<times> jsval) list \<Rightarrow> runtime" where
  "example_runtime table =
     \<lparr>encoder = (\<lambda>m. if get_prop m ''data'' = Inr JNaN then Inl (JStr ''encode failure'')
                      else Inr (JStr ''encoded'')),
      decoder = (\<lambda>raw. case map_of table raw of
                          None \<Rightarrow> Inl (JStr ''decode failure'')
                        | Some m \<Rightarrow> Inr m),
      host_call = (\<lambda>h args. if args = [] then Threw (Thrown (JStr ''no data'')) else Returned),
      room_call = (\<lambda>room to ex m args.
                     if room = JStr ''lobby'' then Threw (Thrown (JStr ''lobby failed''))
                     else Returned),
      toArray = lodash_items,
      each_items = lodash_items,
      number_to_string = (\<lambda>r. ''0''),
      stack = 8\<rparr>"

definition example_host :: primus_host where
  "example_host = \<lparr>slots = [(''write'', Host ''write''), (''send'', Host ''send'')],
                    error_listeners = 1\<rparr>"

definition example_node :: cluster where
  "example_node = PrimusCluster (1 / 2) ''primus'' example_host"

definition room_message :: "jsval list \<Rightarrow> jsval" where
  "room_message rooms =
     JObj [(''id'', JNum (1 / 4)), (''data'', JObj [(''0'', JStr ''news'')]),
           (''type'', JStr ''room''),
           (''opts'', JObj [(''rooms'', JArr rooms), (''method'', JStr ''write'')])]"

definition direct_message :: "jsval \<Rightarrow> jsval" where
  "direct_message i =
     JObj [(''id'', i), (''data'', JArr [JNum 42, JStr ''hello'']),
           (''type'', JStr ''primus''), (''opts'', JObj [(''method'', JStr ''write'')])]"

section \<open>Basic facts\<close>

lemma strict_eq_number_iff: "strict_eq_number v n \<longleftrightarrow> v = JNum n"
  by (cases v) auto

lemma get_prop_defined: "get_prop v k = Inr x \<Longrightarrow> \<exists>y. get_prop v k' = Inr y"
  by (cases v) auto

lemma map_of_set_slot: "map_of (set_slot k v kvs) = (map_of kvs)(k \<mapsto> v)"
  by (induction kvs) auto

lemma publish_primus: "primus (fst (publish env c d t opts)) = primus c"
  by (simp add: publish_def Let_def note_event_def safe_emit_error_def split: prod.splits)

lemma publish_returns: "snd (publish env c d t opts) = Returned"
  by (simp add: publish_def Let_def split: prod.splits)

lemma array_like_length_plain_object [simp]:
  "map_of kvs ''length'' = None \<Longrightarrow> array_like_length kvs = None"
  by (simp add: array_like_length_def)

lemma deliver_any_channel: "deliver n env c chan m = deliver n env c chan' m"
  by (induction n arbitrary: c) (simp_all add: on_message_def)

lemma and_then_Returned: "snd r = Returned \<Longrightarrow> and_then r k = k (fst r)"
  by (cases r) auto

lemma and_then_same: "and_then r (\<lambda>c. (c, Returned)) = r"
proof (cases r)
  case (Pair c out)
  then show ?thesis by (cases out) auto
qed

text \<open>The example node, as its constructor leaves it.\<close>

lemma example_node_eval:
  "example_node = \<lparr>node_id = 1 / 2, channel = ''primus'', silent = False,
     primus = \<lparr>slots = [(''write'', Wrapper ''write''), (''send'', Wrapper ''send''),
          (''__originalwrite'', Host ''write''), (''__originalsend'', Host ''send'')],
         error_listeners = 1\<rparr>,
     message_handlers = 1, trace = [Subscribe ''primus'']\<rparr>"
  by (simp add: example_node_def PrimusCluster_def example_host_def wrapPrimusMethods_def
      wrapMethod_def initializeMessageDispatcher_def note_event_def)

lemma wrapMethod_slots:
  "map_of (slots (primus (wrapMethod method c))) =
     (case map_of (slots (primus c)) method of
        None \<Rightarrow> map_of (slots (primus c))
      | Some f \<Rightarrow> (map_of (slots (primus c)))(''__original'' @ method \<mapsto> f, method \<mapsto> Wrapper method))"
  by (simp add: wrapMethod_def map_of_set_slot split: option.splits)

lemma wrapPrimusMethods_slots:
  assumes "m = ''write'' \<or> m = ''send''" and "map_of (slots (primus c)) m = Some f"
  shows "map_of (slots (primus (wrapPrimusMethods c))) m = Some (Wrapper m)"
    and "map_of (slots (primus (wrapPrimusMethods c))) (''__original'' @ m) = Some f"
  using assms
  by (auto simp: wrapPrimusMethods_def wrapMethod_slots split: option.splits)

text \<open>The loop of \<open>each\<close>, for a callback that records an event and has an outcome.\<close>

lemma each_all_return:
  assumes "\<And>c x. f c x = (note_event (ev x) c, out x)"
    and "\<forall>x\<in>set xs. out x = Returned"
  shows "each f c xs = (c\<lparr>trace := trace c @ map ev xs\<rparr>, Returned)"
  using assms(2)
proof (induction xs arbitrary: c)
  case Nil
  then show ?case by simp
next
  case (Cons x xs)
  then show ?case by (simp add: assms(1) note_event_def)
qed

lemma each_first_throw:
  assumes "\<And>c x. f c x = (note_event (ev x) c, out x)"
    and "\<forall>x\<in>set pre. out x = Returned" and "out r = Threw e"
  shows "each f c (pre @ r # post) = (c\<lparr>trace := trace c @ map ev (pre @ [r])\<rparr>, Threw e)"
  using assms(2)
proof (induction pre arbitrary: c)
  case Nil
  then show ?case by (simp add: assms(1,3) note_event_def)
next
  case (Cons x xs)
  then show ?case by (simp add: assms(1) note_event_def)
qed

lemma this_member_of_string:
  "this_member (s @ ''MessageDispatcher'') =
     (if s = ''room'' then Some RoomDispatcher
      else if s = ''primus'' then Some PrimusDispatcher
      else if s = ''initialize'' then Some InitializeDispatcher
      else None)"
proof -
  have "''roomMessageDispatcher'' = ''room'' @ ''MessageDispatcher''"
    "''primusMessageDispatcher'' = ''primus'' @ ''MessageDispatcher''"
    "''initializeMessageDispatcher'' = ''initialize'' @ ''MessageDispatcher''"
    by simp_all
  then show ?thesis
    unfolding this_member_def by (simp only: append_same_eq)
qed

lemma dispatchMessage_not_self:
  assumes "decoder env raw = Inr msg" and "get_prop msg ''type'' = Inr ty" and "truthy ty"
    and "get_prop msg ''id'' \<noteq> Inr (JNum (node_id c))"
  shows "dispatchMessage env c raw = callDispatcher env (note_event (DecoderCall raw) c) msg"
proof -
  obtain mid where mid: "get_prop msg ''id'' = Inr mid"
    using get_prop_defined [OF assms(2)] by blast
  with assms(4) have "\<not> strict_eq_number mid (node_id c)"
    by (simp add: strict_eq_number_iff)
  then show ?thesis
    using assms(1-3) mid by (simp add: dispatchMessage_def Let_def note_event_def)
qed

lemma room_message_props:
  "get_prop (room_message rs) ''opts'' = Inr (JObj [(''rooms'', JArr rs), (''method'', JStr ''write'')])"
  "get_prop (JObj [(''rooms'', JArr rs), (''method'', JStr ''write'')]) ''rooms'' = Inr (JArr rs)"
  "get_prop (JObj [(''rooms'', JArr rs), (''method'', JStr ''write'')]) ''to'' = Inr JUndefined"
  "get_prop (JObj [(''rooms'', JArr rs), (''method'', JStr ''write'')]) ''except'' = Inr JUndefined"
  "get_prop (JObj [(''rooms'', JArr rs), (''method'', JStr ''write'')]) ''method'' = Inr (JStr ''write'')"
  "get_prop (room_message rs) ''data'' = Inr (JObj [(''0'', JStr ''news'')])"
  by (simp_all add: room_message_def)

section \<open>The re-entrancy guard\<close>

text \<open>
  C1. The claim: \<open>silent\<close> is false before a message is dispatched to a replay handler
  and false again afterwards, also when the handler throws. \<^verbatim>\<open>callDispatcher\<close> has no
  \<^verbatim>\<open>try\<close>: the assignment \<^verbatim>\<open>this.silent = false\<close> is the statement after the call of
  the handler. What holds: \<open>callDispatcher\<close> runs the handler that \<^verbatim>\<open>msg.type\<close> selects
  in the state with \<open>silent\<close> true; when the handler returns, \<open>callDispatcher\<close> returns
  with \<open>silent\<close> false; when the handler throws, \<open>callDispatcher\<close> ends with that error
  in the state the handler left, the assignment not being reached.
\<close>

theorem callDispatcher_resets_silent_on_return:
  assumes "get_prop msg ''type'' = Inr ty"
    and "this_member (to_js_string (number_to_string env) ty @ ''MessageDispatcher'') = Some d"
    and "run_dispatcher d env (c\<lparr>silent := True\<rparr>) msg = (c2, out)"
  shows "(out = Returned \<longrightarrow>
            callDispatcher env c msg = (c2\<lparr>silent := False\<rparr>, Returned)
            \<and> \<not> silent (fst (callDispatcher env c msg)))
       \<and> (\<forall>e. out = Threw e \<longrightarrow> callDispatcher env c msg = (c2, Threw e))"
  using assms by (simp add: callDispatcher_def)

theorem callDispatcher_resets_silent_on_return_witness:
  "callDispatcher (example_runtime []) example_node (room_message [JStr ''hall'', JStr ''vip'']) =
     (example_node\<lparr>trace := [Subscribe ''primus'',
         RoomCall (JStr ''hall'') JUndefined JUndefined (JStr ''write'') [JStr ''news''],
         RoomCall (JStr ''vip'') JUndefined JUndefined (JStr ''write'') [JStr ''news'']]\<rparr>,
      Returned) \<and>
   callDispatcher (example_runtime []) example_node (direct_message (JNum (1 / 4))) =
     (example_node\<lparr>trace := [Subscribe ''primus'',
         HostCall ''write'' [JNum 42, JStr ''hello'']]\<rparr>,
      Returned) \<and>
   callDispatcher (example_runtime []) example_node
       (JObj [(''type'', JStr ''primus''), (''opts'', JObj [(''method'', JStr ''send'')])]) =
     (example_node\<lparr>silent := True, trace := [Subscribe ''primus'', HostCall ''send'' []]\<rparr>,
      Threw (Thrown (JStr ''no data'')))"
proof -
  let ?E = "example_runtime []"
  let ?bare = "JObj [(''type'', JStr ''primus''), (''opts'', JObj [(''method'', JStr ''send'')])]"
  have t1: "get_prop (room_message [JStr ''hall'', JStr ''vip'']) ''type'' = Inr (JStr ''room'')"
    by (simp add: room_message_def)
  have m1: "this_member (to_js_string (number_to_string ?E) (JStr ''room'') @ ''MessageDispatcher'')
              = Some RoomDispatcher"
    by (simp add: this_member_def)
  have r1: "run_dispatcher RoomDispatcher ?E (example_node\<lparr>silent := True\<rparr>)
              (room_message [JStr ''hall'', JStr ''vip'']) =
            (example_node\<lparr>silent := True, trace := [Subscribe ''primus'',
               RoomCall (JStr ''hall'') JUndefined JUndefined (JStr ''write'') [JStr ''news''],
               RoomCall (JStr ''vip'') JUndefined JUndefined (JStr ''write'') [JStr ''news'']]\<rparr>,
             Returned)"
    by (simp add: example_node_eval example_runtime_def room_message_def
        roomMessageDispatcher_def room_body_def note_event_def)
  have t2: "get_prop (direct_message (JNum (1 / 4))) ''type'' = Inr (JStr ''primus'')"
    by (simp add: direct_message_def)
  have t3: "get_prop ?bare ''type'' = Inr (JStr ''primus'')"
    by simp
  have m2: "this_member (to_js_string (number_to_string ?E) (JStr ''primus'') @ ''MessageDispatcher'')
              = Some PrimusDispatcher"
    by (simp add: this_member_def)
  have r2: "run_dispatcher PrimusDispatcher ?E (example_node\<lparr>silent := True\<rparr>)
              (direct_message (JNum (1 / 4))) =
            (example_node\<lparr>silent := True, trace := [Subscribe ''primus'',
               HostCall ''write'' [JNum 42, JStr ''hello'']]\<rparr>,
             Returned)"
    by (simp add: example_node_eval example_runtime_def direct_message_def
        primusMessageDispatcher_def note_event_def eval_nat_numeral)
  have r3: "run_dispatcher PrimusDispatcher ?E (example_node\<lparr>silent := True\<rparr>) ?bare =
            (example_node\<lparr>silent := True, trace := [Subscribe ''primus'', HostCall ''send'' []]\<rparr>,
             Threw (Thrown (JStr ''no data'')))"
    by (simp add: example_node_eval example_runtime_def
        primusMessageDispatcher_def note_event_def eval_nat_numeral)
  from callDispatcher_resets_silent_on_return [OF t1 m1 r1]
    callDispatcher_resets_silent_on_return [OF t2 m2 r2]
    callDispatcher_resets_silent_on_return [OF t3 m2 r3]
  show ?thesis by (simp add: example_node_eval)
qed

text \<open>
  A room message for the room \<open>lobby\<close>, whose operation throws: the error leaves
  \<open>callDispatcher\<close> and \<open>silent\<close> is still true.
\<close>

theorem callDispatcher_leaves_silent_counterexample:
  "\<not> silent example_node \<and>
   callDispatcher (example_runtime []) example_node (room_message [JStr ''lobby'']) =
     (example_node\<lparr>silent := True, trace := [Subscribe ''primus'',
         RoomCall (JStr ''lobby'') JUndefined JUndefined (JStr ''write'') [JStr ''news'']]\<rparr>,
      Threw (Thrown (JStr ''lobby failed'')))"
  by (simp add: callDispatcher_def example_node_eval example_runtime_def room_message_def
      this_member_def roomMessageDispatcher_def room_body_def note_event_def)

section \<open>Publishing in silent mode\<close>

text \<open>
  C2. A call of \<^verbatim>\<open>publish\<close> while \<open>silent\<close> is true returns at once and changes nothing:
  the state, and with it the trace of encoder calls and channel writes, is the one
  before the call.
\<close>

theorem publish_silent_noop:
  "silent c \<Longrightarrow> publish env c data type opts = (c, Returned)"
  by (simp add: publish_def)

theorem publish_silent_noop_witness:
  "silent (example_node\<lparr>silent := True\<rparr>) \<and>
   publish (example_runtime []) (example_node\<lparr>silent := True\<rparr>)
     (JArguments [JNum 1]) (JStr ''primus'') (JObj [(''method'', JStr ''write'')])
   = (example_node\<lparr>silent := True\<rparr>, Returned)"
  using publish_silent_noop [of "example_node\<lparr>silent := True\<rparr>" "example_runtime []"
      "JArguments [JNum 1]" "JStr ''primus''" "JObj [(''method'', JStr ''write'')]"]
  by simp

section \<open>Echo suppression\<close>

text \<open>
  C3. A decoded message whose \<open>id\<close> is this node's id is dropped: the call of the
  decoder is all that happens, no handler runs and \<open>silent\<close> is not touched.
\<close>

theorem dispatchMessage_ignores_own_echo:
  assumes "decoder env raw = Inr msg"
    and "get_prop msg ''id'' = Inr (JNum (node_id c))"
  shows "dispatchMessage env c raw = (note_event (DecoderCall raw) c, Returned)"
proof -
  obtain ty where ty: "get_prop msg ''type'' = Inr ty"
    using get_prop_defined [OF assms(2)] by blast
  show ?thesis
    using assms ty by (simp add: dispatchMessage_def Let_def note_event_def)
qed

theorem dispatchMessage_ignores_own_echo_witness:
  "decoder (example_runtime [(''m'', direct_message (JNum (1 / 2)))]) ''m''
     = Inr (direct_message (JNum (1 / 2))) \<and>
   get_prop (direct_message (JNum (1 / 2))) ''id'' = Inr (JNum (node_id example_node)) \<and>
   dispatchMessage (example_runtime [(''m'', direct_message (JNum (1 / 2)))]) example_node ''m''
     = (note_event (DecoderCall ''m'') example_node, Returned)"
proof -
  have d: "decoder (example_runtime [(''m'', direct_message (JNum (1 / 2)))]) ''m''
             = Inr (direct_message (JNum (1 / 2)))"
    by (simp add: example_runtime_def)
  have i: "get_prop (direct_message (JNum (1 / 2))) ''id'' = Inr (JNum (node_id example_node))"
    by (simp add: direct_message_def example_node_eval)
  from dispatchMessage_ignores_own_echo [OF d i] d i show ?thesis by blast
qed

section \<open>Serialization failures\<close>

text \<open>
  C7. When the encoder or the decoder reports a failure, that is, calls its callback
  with a truthy error, \<^verbatim>\<open>publish\<close> and \<^verbatim>\<open>dispatchMessage\<close> return without throwing;
  an \<^verbatim>\<open>error\<close> event is emitted on the host exactly when it has a listener for it;
  nothing is written to the channel and no handler runs.
\<close>

theorem serialization_failure_policy:
  "(\<not> silent c \<and> truthy err \<and>
    encoder env (cluster_message c data type (if truthy opts then opts else JObj [])) = Inl err
    \<longrightarrow> publish env c data type opts =
         (c\<lparr>trace := trace c @
               EncoderCall (cluster_message c data type (if truthy opts then opts else JObj []))
               # (if error_listeners (primus c) \<noteq> 0 then [EmitError err] else [])\<rparr>,
          Returned))
   \<and> (truthy err' \<and> decoder env raw = Inl err'
    \<longrightarrow> dispatchMessage env c raw =
         (c\<lparr>trace := trace c @
               DecoderCall raw
               # (if error_listeners (primus c) \<noteq> 0 then [EmitError err'] else [])\<rparr>,
          Returned))"
  by (simp add: publish_def dispatchMessage_def Let_def note_event_def safe_emit_error_def)

theorem serialization_failure_policy_witness:
  "(\<not> silent example_node \<and> truthy (JStr ''encode failure'') \<and>
    encoder (example_runtime []) (cluster_message example_node JNaN (JStr ''room'') (JObj []))
      = Inl (JStr ''encode failure'') \<and>
    publish (example_runtime []) example_node JNaN (JStr ''room'') JUndefined =
      (example_node\<lparr>trace := [Subscribe ''primus'',
          EncoderCall (cluster_message example_node JNaN (JStr ''room'') (JObj [])),
          EmitError (JStr ''encode failure'')]\<rparr>, Returned)) \<and>
   (truthy (JStr ''decode failure'') \<and>
    decoder (example_runtime []) ''{'' = Inl (JStr ''decode failure'') \<and>
    dispatchMessage (example_runtime []) example_node ''{'' =
      (example_node\<lparr>trace := [Subscribe ''primus'', DecoderCall ''{'',
          EmitError (JStr ''decode failure'')]\<rparr>, Returned))"
  using serialization_failure_policy [of example_node "JStr ''encode failure''" "example_runtime []"
      JNaN "JStr ''room''" JUndefined "JStr ''decode failure''" "''{''"]
  by (simp add: example_node_eval example_runtime_def cluster_message_def)

section \<open>The message handler\<close>

text \<open>
  C9. The handler of the \<^verbatim>\<open>message\<close> event does not look at the channel: whatever
  the channel, it hands the message to \<^verbatim>\<open>dispatchMessage\<close>. So a \<^verbatim>\<open>message\<close> event
  of the subscribe client is handled in the same way on every channel, and on a node
  with its one handler it is the dispatch of the message.
\<close>

theorem on_message_ignores_channel:
  "on_message env c chan m = dispatchMessage env c m
   \<and> on_message env c chan m = on_message env c chan' m
   \<and> sub_emit_message env c chan m = sub_emit_message env c chan' m
   \<and> (message_handlers c = 1 \<longrightarrow> sub_emit_message env c chan m = dispatchMessage env c m)"
proof -
  have "deliver 1 env c chan m = dispatchMessage env c m"
    by (simp add: on_message_def and_then_Returned and_then_same)
  then show ?thesis
    by (auto simp: on_message_def sub_emit_message_def deliver_any_channel [of _ env c chan m chan'])
qed

text \<open>
  The example node subscribes to the channel \<open>primus\<close>; a direct message of another
  node that arrives as an event of the channel \<open>elsewhere\<close> is replayed.
\<close>

theorem on_message_ignores_channel_witness:
  "channel example_node = ''primus'' \<and> message_handlers example_node = 1 \<and>
   sub_emit_message (example_runtime [(''m'', direct_message (JNum (1 / 4)))]) example_node
       ''elsewhere'' ''m'' =
     (example_node\<lparr>trace := [Subscribe ''primus'', DecoderCall ''m'',
         HostCall ''write'' [JNum 42, JStr ''hello'']]\<rparr>,
      Returned) \<and>
   on_message (example_runtime [(''m'', direct_message (JNum (1 / 4)))]) example_node
       ''elsewhere'' ''m'' =
     (example_node\<lparr>trace := [Subscribe ''primus'', DecoderCall ''m'',
         HostCall ''write'' [JNum 42, JStr ''hello'']]\<rparr>,
      Returned)"
proof -
  have d: "dispatchMessage (example_runtime [(''m'', direct_message (JNum (1 / 4)))]) example_node ''m'' =
     (example_node\<lparr>trace := [Subscribe ''primus'', DecoderCall ''m'',
         HostCall ''write'' [JNum 42, JStr ''hello'']]\<rparr>,
      Returned)"
    by (simp add: dispatchMessage_def callDispatcher_def primusMessageDispatcher_def
        this_member_def direct_message_def example_runtime_def example_node_eval
        note_event_def eval_nat_numeral)
  have h: "message_handlers example_node = 1"
    by (simp add: example_node_eval)
  have ch: "channel example_node = ''primus''"
    by (simp add: example_node_eval)
  note any_channel = on_message_ignores_channel
      [of "example_runtime [(''m'', direct_message (JNum (1 / 4)))]" example_node
          "''elsewhere''" "''m''" "''primus''"]
  have a: "on_message (example_runtime [(''m'', direct_message (JNum (1 / 4)))]) example_node
             ''elsewhere'' ''m'' =
           dispatchMessage (example_runtime [(''m'', direct_message (JNum (1 / 4)))]) example_node ''m''"
    using any_channel by blast
  have b: "sub_emit_message (example_runtime [(''m'', direct_message (JNum (1 / 4)))]) example_node
             ''elsewhere'' ''m'' =
           dispatchMessage (example_runtime [(''m'', direct_message (JNum (1 / 4)))]) example_node ''m''"
    using any_channel h by blast
  show ?thesis
    unfolding a b d using ch h by simp
qed

section \<open>Replaying room messages\<close>

text \<open>
  C4. The claim: a room message that names several rooms has each of them processed
  on its own, and an error thrown for one room does not keep the operation from the
  others. The callback of \<^verbatim>\<open>_.each\<close> in \<^verbatim>\<open>roomMessageDispatcher\<close> has no \<^verbatim>\<open>try\<close>, so
  what holds is: the rooms are processed in order; when every room operation returns,
  the operation has been invoked on every named room; the first error thrown ends the
  iteration and leaves \<^verbatim>\<open>roomMessageDispatcher\<close>, and the rooms after it are not
  processed.
\<close>

theorem roomMessageDispatcher_stops_at_first_failure:
  assumes "get_prop msg ''opts'' = Inr opts" and "get_prop opts ''rooms'' = Inr rooms"
    and "get_prop opts ''to'' = Inr to" and "get_prop opts ''except'' = Inr ex"
    and "get_prop opts ''method'' = Inr m" and "get_prop msg ''data'' = Inr d"
  shows "((\<forall>x\<in>set (each_items env rooms). room_call env x to ex m (toArray env d) = Returned)
          \<longrightarrow> roomMessageDispatcher env c msg =
                (c\<lparr>trace := trace c @
                      map (\<lambda>x. RoomCall x to ex m (toArray env d)) (each_items env rooms)\<rparr>,
                 Returned))
       \<and> (each_items env rooms = pre @ r # post
          \<and> (\<forall>x\<in>set pre. room_call env x to ex m (toArray env d) = Returned)
          \<and> room_call env r to ex m (toArray env d) = Threw e
          \<longrightarrow> roomMessageDispatcher env c msg =
                (c\<lparr>trace := trace c @
                      map (\<lambda>x. RoomCall x to ex m (toArray env d)) (pre @ [r])\<rparr>,
                 Threw e))"
proof -
  have body: "\<And>c x. room_body env msg c x =
      (note_event (RoomCall x to ex m (toArray env d)) c, room_call env x to ex m (toArray env d))"
    using assms by (simp add: room_body_def)
  have disp: "roomMessageDispatcher env c msg = each (room_body env msg) c (each_items env rooms)"
    using assms by (simp add: roomMessageDispatcher_def)
  show ?thesis
    using each_all_return [of "room_body env msg", OF body]
      each_first_throw [of "room_body env msg", OF body]
    by (simp add: disp)
qed

theorem roomMessageDispatcher_stops_at_first_failure_witness:
  "roomMessageDispatcher (example_runtime []) example_node (room_message [JStr ''hall'', JStr ''vip'']) =
     (example_node\<lparr>trace := [Subscribe ''primus'',
         RoomCall (JStr ''hall'') JUndefined JUndefined (JStr ''write'') [JStr ''news''],
         RoomCall (JStr ''vip'') JUndefined JUndefined (JStr ''write'') [JStr ''news'']]\<rparr>,
      Returned) \<and>
   roomMessageDispatcher (example_runtime []) example_node
       (room_message [JStr ''hall'', JStr ''lobby'', JStr ''vip'']) =
     (example_node\<lparr>trace := [Subscribe ''primus'',
         RoomCall (JStr ''hall'') JUndefined JUndefined (JStr ''write'') [JStr ''news''],
         RoomCall (JStr ''lobby'') JUndefined JUndefined (JStr ''write'') [JStr ''news'']]\<rparr>,
      Threw (Thrown (JStr ''lobby failed'')))"
  using roomMessageDispatcher_stops_at_first_failure
      [where env = "example_runtime []" and c = example_node and pre = "[]" and r = JUndefined
         and post = "[]" and e = TypeError,
       OF room_message_props [of "[JStr ''hall'', JStr ''vip'']"]]
    roomMessageDispatcher_stops_at_first_failure
      [where env = "example_runtime []" and c = example_node and pre = "[JStr ''hall'']"
         and r = "JStr ''lobby''" and post = "[JStr ''vip'']"
         and e = "Thrown (JStr ''lobby failed'')",
       OF room_message_props [of "[JStr ''hall'', JStr ''lobby'', JStr ''vip'']"]]
  by (simp add: example_runtime_def example_node_eval)

text \<open>
  Rooms \<open>lobby\<close> and \<open>vip\<close>, the operation on \<open>lobby\<close> throwing: the operation on
  \<open>vip\<close>, which would return, is never invoked.
\<close>

theorem roomMessageDispatcher_skips_later_rooms_counterexample:
  "roomMessageDispatcher (example_runtime []) example_node
       (room_message [JStr ''lobby'', JStr ''vip'']) =
     (example_node\<lparr>trace := [Subscribe ''primus'',
         RoomCall (JStr ''lobby'') JUndefined JUndefined (JStr ''write'') [JStr ''news'']]\<rparr>,
      Threw (Thrown (JStr ''lobby failed''))) \<and>
   room_call (example_runtime []) (JStr ''vip'') JUndefined JUndefined (JStr ''write'') [JStr ''news'']
     = Returned"
  by (simp add: example_node_eval example_runtime_def room_message_def
      roomMessageDispatcher_def room_body_def note_event_def)

section \<open>The wrapped methods\<close>

text \<open>
  C5. For \<open>write\<close> and for \<open>send\<close>, when the host framework has the method:
  after \<^verbatim>\<open>wrapPrimusMethods\<close> the slot holds the wrapper, and the method it held is
  kept under the different name \<^verbatim>\<open>'__original' + method\<close>. A call of the wrapper with
  any arguments is a call of \<^verbatim>\<open>publish\<close> with the arguments as data, the type
  \<open>primus\<close> (the spec's \<open>direct\<close>) and the options \<^verbatim>\<open>{method: method}\<close>, followed by
  a call of the kept method with the same arguments; with room for two nested calls, a
  kept host function is reached.
\<close>

theorem wrapper_publishes_then_calls_original:
  assumes "m = ''write'' \<or> m = ''send''"
    and "map_of (slots (primus c0)) m = Some f"
    and "primus c = primus (wrapPrimusMethods c0)"
  shows "map_of (slots (primus c)) m = Some (Wrapper m)
       \<and> map_of (slots (primus c)) (''__original'' @ m) = Some f
       \<and> ''__original'' @ m \<noteq> m
       \<and> apply_fn (Suc n) env c (Wrapper m) args =
           apply_fn n env
             (fst (publish env c (JArguments args) (JStr ''primus'') (JObj [(''method'', JStr m)])))
             f args
       \<and> (\<forall>h. f = Host h \<longrightarrow>
            apply_fn (Suc (Suc n)) env c (Wrapper m) args =
              (note_event (HostCall h args)
                 (fst (publish env c (JArguments args) (JStr ''primus'')
                         (JObj [(''method'', JStr m)]))),
               host_call env h args))"
proof -
  let ?p = "publish env c (JArguments args) (JStr ''primus'') (JObj [(''method'', JStr m)])"
  have orig: "map_of (slots (primus (fst ?p))) (''__original'' @ m) = Some f"
    using wrapPrimusMethods_slots(2) [OF assms(1,2)] assms(3) by (simp add: publish_primus)
  have step: "apply_fn (Suc k) env c (Wrapper m) args = apply_fn k env (fst ?p) f args" for k
    using orig by (simp add: and_then_Returned [OF publish_returns])
  have host: "apply_fn (Suc (Suc n)) env c (Wrapper m) args =
                (note_event (HostCall h args) (fst ?p), host_call env h args)"
    if "f = Host h" for h
    using step [of "Suc n"] that by simp
  from wrapPrimusMethods_slots [OF assms(1,2)] assms(3) step [of n] host
  show ?thesis by simp
qed

theorem wrapper_publishes_then_calls_original_witness:
  "map_of (slots (primus example_node)) ''write'' = Some (Wrapper ''write'') \<and>
   map_of (slots (primus example_node)) ''__originalwrite'' = Some (Host ''write'') \<and>
   apply_fn 2 (example_runtime []) example_node (Wrapper ''write'') [JNum 42, JStr ''hello''] =
     (example_node\<lparr>trace := [Subscribe ''primus'',
         EncoderCall (JObj [(''id'', JNum (1 / 2)),
                            (''data'', JArguments [JNum 42, JStr ''hello'']),
                            (''type'', JStr ''primus''),
                            (''opts'', JObj [(''method'', JStr ''write'')])]),
         Publish ''primus'' (JStr ''encoded''),
         HostCall ''write'' [JNum 42, JStr ''hello'']]\<rparr>,
      Returned)"
proof -
  have w: "''write'' = ''write'' \<or> ''write'' = ''send''" by simp
  have s: "map_of (slots (primus (example_node\<lparr>primus := example_host\<rparr>))) ''write''
             = Some (Host ''write'')"
    by (simp add: example_host_def)
  have p: "primus example_node = primus (wrapPrimusMethods (example_node\<lparr>primus := example_host\<rparr>))"
    by (simp add: example_node_eval example_host_def wrapPrimusMethods_def wrapMethod_def)
  from wrapper_publishes_then_calls_original [OF w s p, of 0 "example_runtime []"
      "[JNum 42, JStr ''hello'']"]
  show ?thesis
    by (simp add: numeral_2_eq_2 publish_def cluster_message_def note_event_def
        example_node_eval example_runtime_def)
qed

section \<open>Replaying direct messages\<close>

text \<open>
  C6. For a direct message whose \<^verbatim>\<open>opts.method\<close> is \<open>write\<close> or \<open>send\<close>, on a node
  whose host framework had that method when it was wrapped: \<^verbatim>\<open>primusMessageDispatcher\<close>
  calls the host function that was there before the wrapping, once, with
  \<^verbatim>\<open>_.toArray(msg.data)\<close> as its arguments, and does nothing else; its outcome is the
  outcome of that call. For \<open>write\<close> and the data \<^verbatim>\<open>[42, "hello"]\<close> the call is
  \<^verbatim>\<open>write(42, "hello")\<close>.
\<close>

theorem primusMessageDispatcher_replays_original:
  assumes "m = ''write'' \<or> m = ''send''"
    and "map_of (slots (primus c0)) m = Some (Host h)"
    and "primus c = primus (wrapPrimusMethods c0)"
    and "get_prop msg ''opts'' = Inr opts"
    and "get_prop opts ''method'' = Inr (JStr m)"
    and "get_prop msg ''data'' = Inr d"
    and "0 < stack env"
  shows "primusMessageDispatcher env c msg =
           (note_event (HostCall h (toArray env d)) c, host_call env h (toArray env d))"
proof -
  have "map_of (slots (primus c)) (''__original'' @ m) = Some (Host h)"
    using wrapPrimusMethods_slots(2) [OF assms(1,2)] assms(3) by simp
  moreover obtain n where "stack env = Suc n"
    using assms(7) by (cases "stack env") auto
  ultimately show ?thesis
    using assms(4-6) by (simp add: primusMessageDispatcher_def)
qed

theorem primusMessageDispatcher_replays_original_witness:
  "primusMessageDispatcher (example_runtime []) (example_node\<lparr>silent := True\<rparr>)
      (direct_message (JNum (1 / 4))) =
     (example_node\<lparr>silent := True, trace := [Subscribe ''primus'',
         HostCall ''write'' [JNum 42, JStr ''hello'']]\<rparr>,
      Returned)"
proof -
  have w: "''write'' = ''write'' \<or> ''write'' = ''send''" by simp
  have s: "map_of (slots (primus (example_node\<lparr>primus := example_host\<rparr>))) ''write''
             = Some (Host ''write'')"
    by (simp add: example_host_def)
  have p: "primus (example_node\<lparr>silent := True\<rparr>)
             = primus (wrapPrimusMethods (example_node\<lparr>primus := example_host\<rparr>))"
    by (simp add: example_node_eval example_host_def wrapPrimusMethods_def wrapMethod_def)
  have o: "get_prop (direct_message (JNum (1 / 4))) ''opts'' = Inr (JObj [(''method'', JStr ''write'')])"
    by (simp add: direct_message_def)
  have m: "get_prop (JObj [(''method'', JStr ''write'')]) ''method'' = Inr (JStr ''write'')"
    by simp
  have d: "get_prop (direct_message (JNum (1 / 4))) ''data'' = Inr (JArr [JNum 42, JStr ''hello''])"
    by (simp add: direct_message_def)
  have k: "0 < stack (example_runtime [])"
    by (simp add: example_runtime_def)
  from primusMessageDispatcher_replays_original [OF w s p o m d k]
  show ?thesis
    by (simp add: example_runtime_def example_node_eval note_event_def)
qed

section \<open>Messages without a type, messages of an unknown type\<close>

text \<open>
  C8. The claim: a decoded message from another node whose type is neither of the two
  known types makes the routing throw, while a message without a type is dropped.
  The handler is looked up as \<^verbatim>\<open>this[msg.type + 'MessageDispatcher']\<close>, and
  \<^verbatim>\<open>initializeMessageDispatcher\<close> is a method of the node too, so the type
  \<open>initialize\<close> finds a function. What holds is: a message whose type is falsy is dropped
  with no effect but the call of the decoder; a message from another node whose type,
  as a string followed by \<open>MessageDispatcher\<close>, names no method of the node (for a
  string: any non-empty type other than \<open>room\<close>, \<open>primus\<close> and \<open>initialize\<close>) makes
  \<^verbatim>\<open>dispatchMessage\<close> throw a \<^verbatim>\<open>TypeError\<close>, no handler having run.
\<close>

theorem unknown_type_throws_no_type_ignored:
  assumes "decoder env raw = Inr msg" and "get_prop msg ''type'' = Inr ty"
  shows "(\<not> truthy ty \<longrightarrow>
            dispatchMessage env c raw = (note_event (DecoderCall raw) c, Returned))
       \<and> (truthy ty \<and> get_prop msg ''id'' \<noteq> Inr (JNum (node_id c))
          \<and> this_member (to_js_string (number_to_string env) ty @ ''MessageDispatcher'') = None
          \<longrightarrow> dispatchMessage env c raw =
                ((note_event (DecoderCall raw) c)\<lparr>silent := True\<rparr>, Threw TypeError))
       \<and> (ty = JStr s \<and> s \<noteq> [] \<and> s \<noteq> ''room'' \<and> s \<noteq> ''primus'' \<and> s \<noteq> ''initialize''
          \<and> get_prop msg ''id'' \<noteq> Inr (JNum (node_id c))
          \<longrightarrow> snd (dispatchMessage env c raw) = Threw TypeError)"
proof -
  have a: "\<not> truthy ty \<Longrightarrow> dispatchMessage env c raw = (note_event (DecoderCall raw) c, Returned)"
    using assms by (simp add: dispatchMessage_def Let_def)
  have b: "dispatchMessage env c raw = ((note_event (DecoderCall raw) c)\<lparr>silent := True\<rparr>, Threw TypeError)"
    if "truthy ty" "get_prop msg ''id'' \<noteq> Inr (JNum (node_id c))"
      "this_member (to_js_string (number_to_string env) ty @ ''MessageDispatcher'') = None"
    using dispatchMessage_not_self [OF assms that(1,2)] assms(2) that(3)
    by (simp add: callDispatcher_def)
  have c: "snd (dispatchMessage env c raw) = Threw TypeError"
    if "ty = JStr s" "s \<noteq> []" "s \<noteq> ''room''" "s \<noteq> ''primus''" "s \<noteq> ''initialize''"
      "get_prop msg ''id'' \<noteq> Inr (JNum (node_id c))"
  proof -
    have "this_member (to_js_string (number_to_string env) ty @ ''MessageDispatcher'') = None"
      using that(1,3-5) by (simp only: to_js_string.simps this_member_of_string if_False)
    moreover have "truthy ty" using that(1,2) by simp
    ultimately show ?thesis using b that(6) by simp
  qed
  from a b c show ?thesis by blast
qed

theorem unknown_type_throws_no_type_ignored_witness:
  "dispatchMessage (example_runtime [(''m'', JObj [(''id'', JNum (1 / 4))])]) example_node ''m'' =
     (note_event (DecoderCall ''m'') example_node, Returned) \<and>
   dispatchMessage (example_runtime [(''m'', JObj [(''type'', JStr ''presence'')])]) example_node ''m'' =
     ((note_event (DecoderCall ''m'') example_node)\<lparr>silent := True\<rparr>, Threw TypeError)"
proof -
  have d1: "decoder (example_runtime [(''m'', JObj [(''id'', JNum (1 / 4))])]) ''m''
              = Inr (JObj [(''id'', JNum (1 / 4))])"
    by (simp add: example_runtime_def)
  have t1: "get_prop (JObj [(''id'', JNum (1 / 4))]) ''type'' = Inr JUndefined"
    by simp
  have d2: "decoder (example_runtime [(''m'', JObj [(''type'', JStr ''presence'')])]) ''m''
              = Inr (JObj [(''type'', JStr ''presence'')])"
    by (simp add: example_runtime_def)
  have t2: "get_prop (JObj [(''type'', JStr ''presence'')]) ''type'' = Inr (JStr ''presence'')"
    by simp
  have n2: "this_member (to_js_string
              (number_to_string (example_runtime [(''m'', JObj [(''type'', JStr ''presence'')])]))
              (JStr ''presence'') @ ''MessageDispatcher'') = None"
    by (simp add: this_member_def)
  from unknown_type_throws_no_type_ignored [OF d1 t1, of example_node "[]"]
    unknown_type_throws_no_type_ignored [OF d2 t2, of example_node "''presence''"] n2
  show ?thesis by simp
qed

text \<open>
  A message of type \<open>initialize\<close> from another node: nothing is thrown; the node
  subscribes once more and has a second \<^verbatim>\<open>message\<close> handler.
\<close>

theorem initialize_type_counterexample:
  "JStr ''initialize'' \<noteq> JStr ''room'' \<and> JStr ''initialize'' \<noteq> JStr ''primus'' \<and>
   dispatchMessage (example_runtime [(''m'', JObj [(''id'', JNum (1 / 4)),
                                                 (''type'', JStr ''initialize'')])])
       example_node ''m'' =
     (example_node\<lparr>message_handlers := 2,
        trace := [Subscribe ''primus'', DecoderCall ''m'', Subscribe ''primus'']\<rparr>,
      Returned)"
  by (simp add: dispatchMessage_def callDispatcher_def this_member_def
      initializeMessageDispatcher_def note_event_def example_runtime_def example_node_eval)

section \<open>Strict comparison of the message id\<close>

text \<open>
  C10. Only a message id that is the very number \<^verbatim>\<open>this.id\<close> suppresses the replay.
  A decoded message of type \<open>room\<close> or \<open>primus\<close> whose \<open>id\<close> is anything else, a
  missing \<open>id\<close> included, goes to its replay handler, in silent mode.
\<close>

theorem foreign_id_is_replayed:
  assumes "decoder env raw = Inr msg"
    and "get_prop msg ''type'' = Inr (JStr t)"
    and "t = ''room'' \<or> t = ''primus''"
    and "get_prop msg ''id'' \<noteq> Inr (JNum (node_id c))"
  shows "dispatchMessage env c raw =
           and_then
             (run_dispatcher (if t = ''room'' then RoomDispatcher else PrimusDispatcher) env
                ((note_event (DecoderCall raw) c)\<lparr>silent := True\<rparr>) msg)
             (\<lambda>c2. (c2\<lparr>silent := False\<rparr>, Returned))"
proof -
  have "truthy (JStr t)" using assms(3) by auto
  from dispatchMessage_not_self [OF assms(1,2) this assms(4)]
  have "dispatchMessage env c raw = callDispatcher env (note_event (DecoderCall raw) c) msg" .
  moreover have "this_member (to_js_string (number_to_string env) (JStr t) @ ''MessageDispatcher'')
      = Some (if t = ''room'' then RoomDispatcher else PrimusDispatcher)"
    using assms(3) by (auto simp: this_member_def)
  ultimately show ?thesis
    using assms(2) by (simp add: callDispatcher_def)
qed

theorem foreign_id_is_replayed_witness:
  "get_prop (direct_message JUndefined) ''id'' = Inr JUndefined \<and>
   dispatchMessage (example_runtime [(''m'', direct_message JUndefined)]) example_node ''m'' =
     (example_node\<lparr>trace := [Subscribe ''primus'', DecoderCall ''m'',
         HostCall ''write'' [JNum 42, JStr ''hello'']]\<rparr>,
      Returned)"
proof -
  have d: "decoder (example_runtime [(''m'', direct_message JUndefined)]) ''m''
             = Inr (direct_message JUndefined)"
    by (simp add: example_runtime_def)
  have t: "get_prop (direct_message JUndefined) ''type'' = Inr (JStr ''primus'')"
    by (simp add: direct_message_def)
  have k: "''primus'' = ''room'' \<or> ''primus'' = ''primus''" by simp
  have i: "get_prop (direct_message JUndefined) ''id'' \<noteq> Inr (JNum (node_id example_node))"
    by (simp add: direct_message_def)
  from foreign_id_is_replayed [OF d t k i]
  show ?thesis
    by (simp add: primusMessageDispatcher_def direct_message_def example_runtime_def
        example_node_eval note_event_def eval_nat_numeral)
qed

end
